theory Spec2Isabelle
  imports Complex_Main "HOL-Library.Word" "HOL-Library.Signed_Division" "HOL-Library.Log_Nat"
begin

unbundle bit_operations_syntax

section \<open>Floating-point arithmetic of the target\<close>

text \<open>
  \<^verbatim>\<open>adjust_colours\<close> computes in \<^verbatim>\<open>double\<close> and \<^verbatim>\<open>do_gradient\<close> in \<^verbatim>\<open>float\<close> and
  \<^verbatim>\<open>double\<close>: IEEE-754 binary64 and binary32, rounding to nearest, ties to even. A finite
  floating value is modelled by the rational number it denotes, and every operation of the
  source is the exact operation followed by the rounding of its result type
  (\<open>f32\<close>: 24 significant bits, \<open>f64\<close>: 53 significant bits).

  The exponent range is not modelled (no overflow to infinity, no subnormal numbers): the
  operands of the source are integers below \<open>2 ^ 31\<close> in magnitude, quotients of two such
  integers, and sums with \<open>0.5\<close>, which are all far inside the normal range of both formats.
  The sign of zero is not modelled either: the source never divides by such a value nor
  tests its sign.
\<close>

definition ilog2 :: "rat \<Rightarrow> int" where
  \<comment> \<open>the exponent of the leading bit of \<open>x \<noteq> 0\<close>: \<open>2 ^ ilog2 x \<le> \<bar>x\<bar> < 2 ^ (ilog2 x + 1)\<close>\<close>
  "ilog2 x = (let (a, b) = quotient_of \<bar>x\<bar>; k = bitlen a - bitlen b
              in if 2 powi k \<le> \<bar>x\<bar> then k else k - 1)"

definition round_even :: "rat \<Rightarrow> int" where
  \<comment> \<open>the nearest integer, a tie going to the even neighbour\<close>
  "round_even x = (let f = \<lfloor>x\<rfloor>; d = x - of_int f
                   in if d < 1 / 2 then f
                      else if 1 / 2 < d then f + 1
                      else if even f then f else f + 1)"

definition fp_round :: "nat \<Rightarrow> rat \<Rightarrow> rat" where
  \<comment> \<open>rounding to \<open>p\<close> significant bits\<close>
  "fp_round p x = (if x = 0 then 0
                   else let e = ilog2 x - (int p - 1)
                        in of_int (round_even (x / 2 powi e)) * 2 powi e)"

definition f32 :: "rat \<Rightarrow> rat" where
  "f32 = fp_round 24"

definition f64 :: "rat \<Rightarrow> rat" where
  "f64 = fp_round 53"

definition trunc :: "rat \<Rightarrow> int" where
  \<comment> \<open>the conversion of a floating value to \<^verbatim>\<open>int\<close>: the fraction is discarded\<close>
  "trunc x = (if 0 \<le> x then \<lfloor>x\<rfloor> else \<lceil>x\<rceil>)"


section \<open>Colour engine (colours.cc)\<close>

text \<open>
  \<^verbatim>\<open>#define CONST_8_TO_5_BITS 0.12156862745098\<close> and
  \<^verbatim>\<open>#define CONST_8_TO_6_BITS 0.247058823529412\<close>: the \<^verbatim>\<open>double\<close> nearest to each literal.
\<close>

definition CONST_8_TO_5_BITS :: rat where
  "CONST_8_TO_5_BITS = f64 (12156862745098 / 100000000000000)"

definition CONST_8_TO_6_BITS :: rat where
  "CONST_8_TO_6_BITS = f64 (247058823529412 / 1000000000000000)"

text \<open>
  The globals \<^verbatim>\<open>short colour_depth = 0; long redmask, greenmask, bluemask;\<close> and the
  messages that \<^verbatim>\<open>NORM_ERR\<close> has written so far.

  The masks and the channel values cut out with them are modelled by unbounded integers.
  For a colour depth from 0 to 32 (X servers report 1 to 32 planes, the fallback is 16) this
  is exact: a mask has \<open>colour_depth / 3\<close> bits (one more for green when the remainder is 1),
  the bit \<^verbatim>\<open>1 << i\<close> has \<open>i < 11\<close>, a shifted mask is below \<open>2 ^ 34\<close> and a channel value
  below \<open>2 ^ 11\<close>. The packed colour of \<^verbatim>\<open>do_gradient\<close>, which can leave the range of
  \<^verbatim>\<open>int\<close> at depth 32, is computed in 32 bits.
\<close>

datatype log_msg =
    NonStandardDepth  \<comment> \<open>"using non-standard colour depth, gradients may look like a lolly-pop"\<close>
  | CantParseXColor string nat  \<comment> \<open>"can't parse X color '%s' (%d)"\<close>

record colour_state =
  colour_depth :: int
  redmask :: int
  greenmask :: int
  bluemask :: int
  err_log :: "log_msg list"

text \<open>
  The loop \<^verbatim>\<open>for (int i = (colour_depth / 3) - 1; i >= 0; i--) mask |= 1 << i;\<close> started
  with \<open>n = colour_depth / 3\<close>: the equation for \<open>Suc i\<close> is the iteration with loop
  variable \<open>i\<close>. The three masks receive the same bits.
\<close>

primrec mask_loop :: "nat \<Rightarrow> int \<Rightarrow> int" where
  "mask_loop 0 m = m"
| "mask_loop (Suc i) m = mask_loop i (m OR push_bit i 1)"

text \<open>
  \<open>planes\<close> is what the display back end reports: \<open>Some d\<close> when the build has X11, output to
  X is on and \<^verbatim>\<open>DisplayPlanes(display, screen)\<close> is \<open>d\<close>; \<open>None\<close> otherwise (in
  particular for a Wayland-only build), where the depth defaults to 16. The assignment to
  the \<^verbatim>\<open>short\<close> keeps 16 bits. \<open>sdiv\<close> and \<open>smod\<close> are the truncating \<^verbatim>\<open>/\<close> and \<^verbatim>\<open>%\<close> of C++.
\<close>

definition set_up_gradient :: "int option \<Rightarrow> colour_state \<Rightarrow> colour_state" where
  "set_up_gradient planes st =
     (let depth = (case planes of Some d \<Rightarrow> sint (word_of_int d :: 16 word) | None \<Rightarrow> 16);
          lg = (if depth \<noteq> 24 \<and> depth \<noteq> 16 then err_log st @ [NonStandardDepth]
                else err_log st);
          m = mask_loop (nat (depth sdiv 3)) 0;
          g = (if depth smod 3 = 1 then m OR push_bit (nat (depth sdiv 3)) 1 else m)
      in \<lparr>colour_depth = depth,
          redmask = push_bit (nat (2 * depth sdiv 3 + depth smod 3)) m,
          greenmask = push_bit (nat (depth sdiv 3)) g,
          bluemask = m,
          err_log = lg\<rparr>)"

definition lazy_init :: "int option \<Rightarrow> colour_state \<Rightarrow> colour_state" where
  \<comment> \<open>\<^verbatim>\<open>if (colour_depth == 0) { set_up_gradient(); }\<close>\<close>
  "lazy_init planes st = (if colour_depth st = 0 then set_up_gradient planes st else st)"

text \<open>
  \<^verbatim>\<open>unsigned int adjust_colours(unsigned int colour)\<close>: the result is the new state of the
  globals and the returned colour. \<^verbatim>\<open>r\<close>, \<^verbatim>\<open>g\<close>, \<^verbatim>\<open>b\<close> are \<^verbatim>\<open>double\<close>; each product is
  rounded to \<^verbatim>\<open>double\<close> and then cut to \<^verbatim>\<open>int\<close>.
\<close>

definition adjust_colours :: "int option \<Rightarrow> colour_state \<Rightarrow> 32 word \<Rightarrow> colour_state \<times> 32 word" where
  "adjust_colours planes st colour =
     (let st1 = lazy_init planes st
      in if colour_depth st1 = 16 then
           let r = of_int (uint (drop_bit 16 (colour AND 0xff0000))) :: rat;
               g = of_int (uint (drop_bit 8 (colour AND 0xff00))) :: rat;
               b = of_int (uint (colour AND 0xff)) :: rat;
               c1 = word_of_int (push_bit 11 (trunc (f64 (r * CONST_8_TO_5_BITS)))) :: 32 word;
               c2 = c1 OR word_of_int (push_bit 5 (trunc (f64 (g * CONST_8_TO_6_BITS))));
               c3 = c2 OR word_of_int (trunc (f64 (b * CONST_8_TO_5_BITS)))
           in (st1, c3)
         else (st1, colour))"

text \<open>
  One channel of one iteration of the loop of \<^verbatim>\<open>do_gradient\<close>, for the channel values
  \<open>c1\<close> (first colour) and \<open>c2\<close> (last colour) and \<^verbatim>\<open>diff = abs(c1 - c2)\<close>:

  \<^verbatim>\<open>float factor = (static_cast<float>(i) / (width - 1));\<close>
  \<^verbatim>\<open>if (c1 >= c2) { c3 = -(factor * diff) - 0.5; } else if (c1 < c2) { c3 = factor * diff + 0.5; }\<close>
  \<^verbatim>\<open>c3 += c1; if (c3 < 0) { c3 = 0; } if (c3 > bluemask) { c3 = bluemask; }\<close>

  The product is a \<^verbatim>\<open>float\<close>, the sum with the \<^verbatim>\<open>double\<close> literal \<open>0.5\<close> a \<^verbatim>\<open>double\<close>.
  All three channels are compared with \<^verbatim>\<open>bluemask\<close> in the source.
\<close>

definition gradient_factor :: "int \<Rightarrow> int \<Rightarrow> rat" where
  "gradient_factor i width = f32 (f32 (of_int i) / f32 (of_int (width - 1)))"

definition gradient_channel :: "rat \<Rightarrow> int \<Rightarrow> int \<Rightarrow> int \<Rightarrow> int" where
  "gradient_channel factor bmask c1 c2 =
     (let diff = \<bar>c1 - c2\<bar>;
          c3 = (if c1 \<ge> c2 then trunc (f64 (- f32 (factor * f32 (of_int diff)) - 1 / 2))
                else if c1 < c2 then trunc (f64 (f32 (factor * f32 (of_int diff)) + 1 / 2))
                else 0);
          c3 = c3 + c1;
          c3 = (if c3 < 0 then 0 else c3);
          c3 = (if c3 > bmask then bmask else c3)
      in c3)"

text \<open>
  \<^verbatim>\<open>do_gradient(int width, unsigned long first_colour, unsigned long last_colour)\<close>.
  The two shifts are computed from \<^verbatim>\<open>colour_depth\<close> on entry, before the lazy set-up of
  the masks. The array \<^verbatim>\<open>colours\<close> of \<^verbatim>\<open>width\<close> elements, filled at every index by the
  loop, is the returned list. \<^verbatim>\<open>(red3 << redshift) | (green3 << greenshift) | blue3\<close> is an
  \<^verbatim>\<open>int\<close>: the three channels are packed in 32 bits, two's complement, and the assignment to
  the \<^verbatim>\<open>unsigned long\<close> element widens the packed value with its sign (at depth 32 a red
  channel that reaches bit 31 fills the upper half of the element with ones).
\<close>

definition do_gradient ::
  "int option \<Rightarrow> colour_state \<Rightarrow> int \<Rightarrow> 64 word \<Rightarrow> 64 word \<Rightarrow> colour_state \<times> 64 word list" where
  "do_gradient planes st width first_colour last_colour =
     (let redshift = nat (2 * colour_depth st sdiv 3 + colour_depth st smod 3);
          greenshift = nat (colour_depth st sdiv 3);
          width = max 2 width;
          st1 = lazy_init planes st;
          red1 = drop_bit redshift (uint first_colour AND redmask st1);
          green1 = drop_bit greenshift (uint first_colour AND greenmask st1);
          blue1 = uint first_colour AND bluemask st1;
          red2 = drop_bit redshift (uint last_colour AND redmask st1);
          green2 = drop_bit greenshift (uint last_colour AND greenmask st1);
          blue2 = uint last_colour AND bluemask st1
      in (st1,
          map (\<lambda>i. let factor = gradient_factor (int i) width;
                        red3 = gradient_channel factor (bluemask st1) red1 red2;
                        green3 = gradient_channel factor (bluemask st1) green1 green2;
                        blue3 = gradient_channel factor (bluemask st1) blue1 blue2
                    in scast (push_bit redshift (word_of_int red3 :: 32 word)
                                OR push_bit greenshift (word_of_int green3)
                                OR word_of_int blue3))
              [0 ..< nat width]))"


section \<open>Colour names (colours.cc, Wayland branch of \<^verbatim>\<open>get_x11_color\<close>)\<close>

text \<open>
  \<^verbatim>\<open>static int hex_nibble_value(char c)\<close>. A character is read by its code, 0 to 255; a
  \<^verbatim>\<open>char\<close> that the platform reads as negative lies in none of the three ranges either.
\<close>

definition hex_nibble_value :: "char \<Rightarrow> int" where
  "hex_nibble_value c =
     (if of_char c \<ge> (of_char (CHR ''0'') :: int) \<and> of_char c \<le> (of_char (CHR ''9'') :: int)
        then of_char c - of_char (CHR ''0'')
      else if of_char c \<ge> (of_char (CHR ''a'') :: int) \<and> of_char c \<le> (of_char (CHR ''f'') :: int)
        then of_char c - of_char (CHR ''a'') + 10
      else if of_char c \<ge> (of_char (CHR ''A'') :: int) \<and> of_char c \<le> (of_char (CHR ''F'') :: int)
        then of_char c - of_char (CHR ''A'') + 10
      else - 1)"

text \<open>
  The loop \<^verbatim>\<open>for (int i = 0; i + 1 < len; i += 2)\<close> over the digit pairs: \<open>None\<close> is the
  \<^verbatim>\<open>goto err\<close>, \<open>Some\<close> the array \<^verbatim>\<open>argb\<close> when the loop is left normally. The loop is
  entered with \<open>len = 6\<close> or \<open>len = 8\<close> only, so that \<open>3 - i / 2\<close> is an index of \<^verbatim>\<open>argb\<close>
  and \<open>i + 1\<close> an index of \<^verbatim>\<open>name\<close>.
\<close>

function parse_hex_pairs :: "string \<Rightarrow> nat \<Rightarrow> nat \<Rightarrow> 8 word list \<Rightarrow> 8 word list option" where
  "parse_hex_pairs name len i argb =
     (if i + 1 < len then
        let nib1 = hex_nibble_value (name ! i);
            nib2 = hex_nibble_value (name ! (i + 1))
        in if nib1 < 0 \<or> nib2 < 0 then None
           else let val = push_bit 4 nib1 + nib2
                in parse_hex_pairs name len (i + 2) (argb[3 - i div 2 := word_of_int val])
      else Some argb)"
  by pat_completeness auto
termination
  by (relation "measure (\<lambda>(name, len, i, argb). len - i)") auto

declare parse_hex_pairs.simps [simp del]

text \<open>
  \<^verbatim>\<open>long out; memcpy(static_cast<void*>(&out), argb, 4); return out;\<close> on a little-endian
  target with a 64-bit \<^verbatim>\<open>long\<close> (x86-64 and AArch64 Linux): the four bytes of \<^verbatim>\<open>argb\<close> are
  the low half of the result, \<^verbatim>\<open>argb[0]\<close> the lowest byte. The source never writes the high
  half of \<^verbatim>\<open>out\<close>; \<open>hi\<close> stands for whatever these four bytes hold.
\<close>

definition long_of_argb :: "8 word list \<Rightarrow> 32 word \<Rightarrow> 64 word" where
  "long_of_argb argb hi =
     ucast (argb ! 0) OR push_bit 8 (ucast (argb ! 1)) OR push_bit 16 (ucast (argb ! 2))
       OR push_bit 24 (ucast (argb ! 3)) OR push_bit 32 (ucast hi)"

text \<open>
  \<^verbatim>\<open>long get_x11_color(const char *name)\<close>, the branch compiled for Wayland (the X11 branch
  hands the name to \<^verbatim>\<open>XParseColor\<close> of Xlib and is not modelled). \<open>name\<close> is the
  characters before the terminating NUL. \<^verbatim>\<open>OsLookupColor\<close> (declared in x11-color.h, not
  part of these sources) is a parameter: \<open>Some (r, g, b)\<close> when it finds the name in the
  colour database. The result is the message given to \<^verbatim>\<open>NORM_ERR\<close>, if any, and the
  returned \<^verbatim>\<open>long\<close>. The named colour is composed in \<^verbatim>\<open>int\<close> (32 bits, two's complement)
  and then widened to \<^verbatim>\<open>long\<close> with its sign.
\<close>

definition get_x11_color ::
  "(string \<Rightarrow> (16 word \<times> 16 word \<times> 16 word) option) \<Rightarrow> 32 word \<Rightarrow> string
     \<Rightarrow> log_msg option \<times> 64 word" where
  "get_x11_color OsLookupColor hi name0 =
     (case OsLookupColor name0 of
        Some (r, g, b) \<Rightarrow>
          (None, scast ((0x000000ff :: 32 word) OR push_bit 24 (ucast r AND 0xff)
                          OR push_bit 16 (ucast g AND 0xff) OR push_bit 8 (ucast b AND 0xff)))
      | None \<Rightarrow>
          let (name, len) =
                (case name0 of
                   c # cs \<Rightarrow> if c = CHR ''#'' then (cs, length name0 - 1) else (name0, length name0)
                 | [] \<Rightarrow> (name0, length name0))
          in if len = 6 \<or> len = 8 then
               (case parse_hex_pairs name len 0 [0xff, 0, 0, 0] of
                  Some argb \<Rightarrow> (None, long_of_argb argb hi)
                | None \<Rightarrow> (Some (CantParseXColor name len), 0xFF00FF))
             else (Some (CantParseXColor name len), 0xFF00FF))"

text \<open>
  What the specification calls a valid hex string: six or eight hex digits, with or without
  a leading marker \<open>#\<close>.
\<close>

definition is_hex_digit :: "char \<Rightarrow> bool" where
  "is_hex_digit c = (c \<in> set ''0123456789abcdefABCDEF'')"

definition strip_marker :: "string \<Rightarrow> string" where
  "strip_marker name = (case name of c # cs \<Rightarrow> if c = CHR ''#'' then cs else name | [] \<Rightarrow> name)"

definition valid_hex_colour :: "string \<Rightarrow> bool" where
  "valid_hex_colour name =
     ((length (strip_marker name) = 6 \<or> length (strip_marker name) = 8)
      \<and> list_all is_hex_digit (strip_marker name))"


section \<open>Font metrics (display back end for Wayland)\<close>

text \<open>
  \<^verbatim>\<open>struct pango_font\<close>, with the description handle as an optional address and the two
  \<^verbatim>\<open>uint32_t\<close> metrics; \<^verbatim>\<open>static std::vector<pango_font> pango_fonts\<close> is a list.
\<close>

record pango_font =
  desc :: "nat option"
  ascent :: "32 word"
  descent :: "32 word"
  font_alpha :: int

datatype error = AssertionFailed

text \<open>
  \<^verbatim>\<open>font_height\<close>, \<^verbatim>\<open>font_ascent\<close>, \<^verbatim>\<open>font_descent\<close>: the \<^verbatim>\<open>unsigned int f\<close> indexes the
  table, \<^verbatim>\<open>assert(f < pango_fonts.size())\<close> aborts otherwise. The \<^verbatim>\<open>uint32_t\<close> result is
  returned as \<^verbatim>\<open>int\<close>.
\<close>

definition font_height :: "pango_font list \<Rightarrow> 32 word \<Rightarrow> error + int" where
  "font_height pango_fonts f =
     (if length pango_fonts = 0 then Inr 2
      else if unat f < length pango_fonts then Inr (sint (ascent (pango_fonts ! unat f) + descent (pango_fonts ! unat f)))
      else Inl AssertionFailed)"

definition font_ascent :: "pango_font list \<Rightarrow> 32 word \<Rightarrow> error + int" where
  "font_ascent pango_fonts f =
     (if length pango_fonts = 0 then Inr 1
      else if unat f < length pango_fonts then Inr (sint (ascent (pango_fonts ! unat f)))
      else Inl AssertionFailed)"

definition font_descent :: "pango_font list \<Rightarrow> 32 word \<Rightarrow> error + int" where
  "font_descent pango_fonts f =
     (if length pango_fonts = 0 then Inr 1
      else if unat f < length pango_fonts then Inr (sint (descent (pango_fonts ! unat f)))
      else Inl AssertionFailed)"

text \<open>
  \<^verbatim>\<open>free_fonts(bool utf8)\<close>: every description that is not null is handed to
  \<^verbatim>\<open>pango_font_description_free\<close>, then the table is cleared. The result is the freed
  descriptions and the new table.
\<close>

definition free_fonts :: "bool \<Rightarrow> pango_font list \<Rightarrow> nat list \<times> pango_font list" where
  "free_fonts utf8 pango_fonts = (List.map_filter desc pango_fonts, [])"


section \<open>Shared-memory pool\<close>

text \<open>
  \<^verbatim>\<open>struct shm_pool { struct wl_shm_pool *pool; size_t size; size_t used; void *data; }\<close>
  with 64-bit \<^verbatim>\<open>size_t\<close> and addresses.
\<close>

record shm_pool =
  pool :: "64 word"
  size' :: "64 word"
  used :: "64 word"
  data :: "64 word"

text \<open>
  \<^verbatim>\<open>static void *shm_pool_allocate(struct shm_pool *pool, size_t size, int *offset)\<close>:
  the result is the pool afterwards and, unless \<^verbatim>\<open>NULL\<close> is returned, the returned address
  together with the value stored in \<^verbatim>\<open>*offset\<close>. The sum \<^verbatim>\<open>pool->used + size\<close> is a
  \<^verbatim>\<open>size_t\<close> sum and wraps around at \<open>2 ^ 64\<close>; \<^verbatim>\<open>*offset\<close> is an \<^verbatim>\<open>int\<close> and keeps the low
  32 bits of \<^verbatim>\<open>pool->used\<close>.
\<close>

definition shm_pool_allocate :: "shm_pool \<Rightarrow> 64 word \<Rightarrow> shm_pool \<times> (64 word \<times> 32 word) option" where
  "shm_pool_allocate p sz =
     (if used p + sz > size' p then (p, None)
      else let offset = ucast (used p) :: 32 word
           in (p\<lparr>used := used p + sz\<rparr>, Some (data p + scast offset, offset)))"


section \<open>Inputs used in the evaluations below\<close>

definition uninitialised :: colour_state where
  \<comment> \<open>the globals at program start: \<^verbatim>\<open>colour_depth = 0\<close>, zero-initialised masks\<close>
  "uninitialised = \<lparr>colour_depth = 0, redmask = 0, greenmask = 0, bluemask = 0, err_log = []\<rparr>"

definition depth16 :: colour_state where
  \<comment> \<open>the globals once \<^verbatim>\<open>set_up_gradient\<close> has run without X11: 5/6/5 bits\<close>
  "depth16 = \<lparr>colour_depth = 16, redmask = 0xF800, greenmask = 0x07E0, bluemask = 0x1F, err_log = []\<rparr>"

definition depth24 :: colour_state where
  \<comment> \<open>the globals once \<^verbatim>\<open>set_up_gradient\<close> has run on an X display with 24 planes\<close>
  "depth24 = \<lparr>colour_depth = 24, redmask = 0xFF0000, greenmask = 0xFF00, bluemask = 0xFF, err_log = []\<rparr>"

definition no_named_colours :: "string \<Rightarrow> (16 word \<times> 16 word \<times> 16 word) option" where
  \<comment> \<open>a colour database in which no name resolves\<close>
  "no_named_colours name = None"


section \<open>Evaluation of the floating-point expressions\<close>

text \<open>
  The rounding on known values: \<open>1/3\<close> as a \<^verbatim>\<open>float\<close> is \<open>0x3EAAAAAB\<close>, the integer
  \<open>2 ^ 24 + 1\<close> is not a \<^verbatim>\<open>float\<close> and goes to its even neighbour, \<open>0.1\<close> as a \<^verbatim>\<open>double\<close>
  is \<open>0x3FB999999999999A\<close>.
\<close>

lemma fp_round_known_values:
  "f32 (1 / 3) = 11184811 / 2 ^ 25"
  "f32 16777217 = 16777216"
  "f32 (- 16777219) = - 16777220"
  "f64 (1 / 10) = 7205759403792794 / 2 ^ 56"
  by code_simp+

lemma set_up_gradient_wayland: "set_up_gradient None uninitialised = depth16"
  by code_simp

lemma set_up_gradient_x24: "set_up_gradient (Some 24) uninitialised = depth24"
  by code_simp

lemma quantise_values:
  "trunc (f64 (255 * CONST_8_TO_5_BITS)) = 30"
  "trunc (f64 (255 * CONST_8_TO_6_BITS)) = 63"
  "trunc (f64 (254 * CONST_8_TO_5_BITS)) = 30"
  "trunc (f64 (247 * CONST_8_TO_6_BITS)) = 61"
  "trunc (f64 0) = 0"
  by code_simp+

lemma gradient_factor_values:
  "gradient_factor 0 2 = 0"
  "gradient_factor 1 2 = 1"
  "gradient_factor 0 3 = 0"
  "gradient_factor 1 3 = 1 / 2"
  "gradient_factor 2 3 = 1"
  by code_simp+

lemma gradient_channel_values:
  "gradient_channel 0 31 63 0 = 31"
  "gradient_channel 1 31 63 0 = 0"
  "gradient_channel 0 31 0 0 = 0"
  "gradient_channel 1 31 0 0 = 0"
  "gradient_channel 0 31 32 63 = 31"
  "gradient_channel (1 / 2) 31 32 63 = 31"
  "gradient_channel 1 31 32 63 = 31"
  "gradient_channel (1 / 2) 31 0 0 = 0"
  "gradient_channel 0 31 0xF800 0xF800 = 31"
  "gradient_channel 1 31 0xF800 0xF800 = 31"
  by code_simp+

lemma upt_small: "[0..<2] = [0, 1]" "[0..<3] = [0, 1, 2]"
  by (simp_all add: upt_rec)

lemma adjust_colours_white_16: "adjust_colours None depth16 0xFFFFFF = (depth16, 0xF7FE)"
  by (simp add: depth16_def adjust_colours_def lazy_init_def Let_def quantise_values)

lemma adjust_colours_again_16: "adjust_colours None depth16 0xF7FE = (depth16, 0x07BE)"
  by (simp add: depth16_def adjust_colours_def lazy_init_def Let_def quantise_values)

text \<open>
  Whatever the factor and the two channel values are, the channel that the loop of
  \<^verbatim>\<open>do_gradient\<close> computes lies between 0 and \<^verbatim>\<open>bluemask\<close>.
\<close>

lemma gradient_channel_bounds:
  "0 \<le> bmask \<Longrightarrow> 0 \<le> gradient_channel factor bmask c1 c2 \<and> gradient_channel factor bmask c1 c2 \<le> bmask"
  by (simp add: gradient_channel_def Let_def)

lemma do_gradient_length: "length (snd (do_gradient planes st width a b)) = nat (max 2 width)"
  by (simp add: do_gradient_def Let_def)


section \<open>The gradient\<close>

text \<open>
  Claim C4: for every width below 2, zero and negative widths included, \<^verbatim>\<open>do_gradient\<close>
  computes what it computes for width 2, whatever the state of the globals and the two
  colours are; the sequence it returns has length 2.
\<close>

theorem do_gradient_width_below_2:
  "width < 2 \<Longrightarrow>
     do_gradient planes st width first_colour last_colour
       = do_gradient planes st 2 first_colour last_colour
     \<and> length (snd (do_gradient planes st width first_colour last_colour)) = 2"
  by (simp add: do_gradient_def Let_def max_def)

theorem do_gradient_width_below_2_witness:
  "(- 5 :: int) < 2
   \<and> do_gradient None depth16 (- 5) 0x07E0 0x001F = do_gradient None depth16 2 0x07E0 0x001F
   \<and> length (snd (do_gradient None depth16 (- 5) 0x07E0 0x001F)) = 2"
proof -
  have h: "(- 5 :: int) < 2" by simp
  show ?thesis
    using h do_gradient_width_below_2 [OF h, of None depth16 "0x07E0" "0x001F"] by blast
qed


text \<open>
  Claim C1: for a width of at least 2 the returned sequence has \<^verbatim>\<open>width\<close> elements, the
  first of which is to carry the channel values of the first colour and the last those of
  the last colour. At depth 16 the source compares the green channel with \<^verbatim>\<open>bluemask\<close>
  (31) although green has six bits there: from pure green \<open>0x07E0\<close> (green 63) to black over
  two steps the sequence has two elements and ends in black, but it starts with \<open>0x03E0\<close>
  (green 31) and not with the first colour.
\<close>

theorem do_gradient_first_element_green_16:
  "do_gradient None depth16 2 0x07E0 0x0000 = (depth16, [0x03E0, 0x0000])"
  by (simp add: depth16_def do_gradient_def lazy_init_def Let_def
        signed_divide_int_def signed_modulo_int_def
        gradient_factor_values gradient_channel_values upt_small)

text \<open>
  When \<^verbatim>\<open>do_gradient\<close> is the first function of a run to need the colour depth, the two
  shifts are computed from \<^verbatim>\<open>colour_depth = 0\<close> and stay 0 although the masks are then
  set up for depth 16: a gradient from red \<open>0xF800\<close> to itself comes out as blue \<open>0x001F\<close>.
\<close>

lemma do_gradient_first_call:
  "do_gradient None uninitialised 2 0xF800 0xF800 = (depth16, [0x001F, 0x001F])"
proof -
  have "lazy_init None uninitialised = depth16"
    by (simp add: lazy_init_def set_up_gradient_wayland) (simp add: uninitialised_def)
  moreover have "colour_depth uninitialised = 0"
    by (simp add: uninitialised_def)
  ultimately show ?thesis
    by (simp add: do_gradient_def Let_def signed_divide_int_def signed_modulo_int_def
          gradient_factor_values gradient_channel_values upt_small)
      (simp add: depth16_def gradient_factor_values gradient_channel_values)
qed

text \<open>
  Claim C2: every interpolated channel is to be rounded to the nearest integer and clamped
  to the largest value of its own bit width, 63 for green at depth 16. From green 32
  (\<open>0x0400\<close>) to green 63 (\<open>0x07E0\<close>) over three steps the rounded channel values are 32,
  48 and 63, which all fit six bits; the source cuts each of them to \<^verbatim>\<open>bluemask\<close>, that
  is to 31 (\<open>0x03E0\<close>).
\<close>

theorem do_gradient_green_cut_to_bluemask_16:
  "do_gradient None depth16 3 0x0400 0x07E0 = (depth16, [0x03E0, 0x03E0, 0x03E0])"
  by (simp add: depth16_def do_gradient_def lazy_init_def Let_def
        signed_divide_int_def signed_modulo_int_def
        gradient_factor_values gradient_channel_values upt_small)


section \<open>Depth adjustment\<close>

text \<open>
  Claim C3, as stated: with the depth fixed, \<^verbatim>\<open>adjust_colours\<close> is idempotent. At depth
  16 it is not: it reads its argument as 8/8/8 bits and returns 5/6/5 bits, so that white
  \<open>0xFFFFFF\<close> becomes \<open>0xF7FE\<close>, and \<open>0xF7FE\<close> read as 8/8/8 bits becomes \<open>0x07BE\<close>.
\<close>

theorem adjust_colours_not_idempotent_16:
  "snd (adjust_colours None depth16 (snd (adjust_colours None depth16 0xFFFFFF)))
     \<noteq> snd (adjust_colours None depth16 0xFFFFFF)"
  by (simp add: adjust_colours_white_16 adjust_colours_again_16)

text \<open>
  Claim C3, amended: with the depth fixed (initialised, that is not 0) at a value other
  than 16, \<^verbatim>\<open>adjust_colours\<close> is idempotent: it returns its argument and leaves the globals
  as they are, so that a second application returns what the first one did.
\<close>

theorem adjust_colours_idempotent_not_16:
  "colour_depth st \<noteq> 0 \<Longrightarrow> colour_depth st \<noteq> 16 \<Longrightarrow>
     adjust_colours planes (fst (adjust_colours planes st c)) (snd (adjust_colours planes st c))
       = adjust_colours planes st c"
  by (simp add: adjust_colours_def Let_def lazy_init_def)

theorem adjust_colours_idempotent_not_16_witness:
  "colour_depth depth24 \<noteq> 0 \<and> colour_depth depth24 \<noteq> 16
   \<and> adjust_colours None (fst (adjust_colours None depth24 0x123456))
        (snd (adjust_colours None depth24 0x123456))
       = adjust_colours None depth24 0x123456"
proof -
  have h0: "colour_depth depth24 \<noteq> 0" and h16: "colour_depth depth24 \<noteq> 16"
    by (simp_all add: depth24_def)
  show ?thesis
    using h0 h16 adjust_colours_idempotent_not_16 [OF h0 h16, of None "0x123456"] by blast
qed

text \<open>
  Claim C9, as stated: whenever \<^verbatim>\<open>colour_depth\<close> is a value other than 16,
  \<^verbatim>\<open>adjust_colours\<close> returns its argument. The value 0 is other than 16, but it makes
  \<^verbatim>\<open>adjust_colours\<close> call \<^verbatim>\<open>set_up_gradient\<close> first, which without X11 sets the depth to 16:
  the first call of a run quantises white to \<open>0xF7FE\<close>.
\<close>

theorem adjust_colours_uninitialised_quantises:
  "colour_depth uninitialised \<noteq> 16
   \<and> snd (adjust_colours None uninitialised 0xFFFFFF) \<noteq> 0xFFFFFF"
proof -
  have "adjust_colours None uninitialised 0xFFFFFF = adjust_colours None depth16 0xFFFFFF"
    by (simp add: adjust_colours_def lazy_init_def set_up_gradient_wayland)
      (simp add: uninitialised_def depth16_def)
  then show ?thesis
    by (simp add: adjust_colours_white_16) (simp add: uninitialised_def)
qed

text \<open>
  Claim C9, amended: whenever the colour depth in force, that is \<^verbatim>\<open>colour_depth\<close> after the
  lazy set-up that \<^verbatim>\<open>adjust_colours\<close> starts with, is a value other than 16,
  \<^verbatim>\<open>adjust_colours\<close> returns its argument unchanged.
\<close>

theorem adjust_colours_identity_not_16:
  "colour_depth (lazy_init planes st) \<noteq> 16 \<Longrightarrow>
     adjust_colours planes st c = (lazy_init planes st, c)"
  by (simp add: adjust_colours_def Let_def)

theorem adjust_colours_identity_not_16_witness:
  "colour_depth (lazy_init (Some 24) uninitialised) \<noteq> 16
   \<and> adjust_colours (Some 24) uninitialised 0xFFFFFF = (lazy_init (Some 24) uninitialised, 0xFFFFFF)"
proof -
  have "lazy_init (Some 24) uninitialised = depth24"
    by (simp add: lazy_init_def set_up_gradient_x24) (simp add: uninitialised_def)
  then have h: "colour_depth (lazy_init (Some 24) uninitialised) \<noteq> 16"
    by (simp add: depth24_def)
  show ?thesis
    using h adjust_colours_identity_not_16 [OF h, of "0xFFFFFF"] by blast
qed


section \<open>Font metrics\<close>

text \<open>
  Claim C8: with an empty font table \<^verbatim>\<open>font_height\<close>, \<^verbatim>\<open>font_ascent\<close> and \<^verbatim>\<open>font_descent\<close>
  return 2, 1 and 1 for any index, without failing the assertion; \<^verbatim>\<open>free_fonts\<close> leaves
  the table empty, so that \<^verbatim>\<open>font_height(0)\<close> after \<^verbatim>\<open>free_fonts\<close> is 2.
\<close>

theorem font_metrics_fallback:
  "font_height [] f = Inr 2 \<and> font_ascent [] f = Inr 1 \<and> font_descent [] f = Inr 1
   \<and> snd (free_fonts utf8 pango_fonts) = []
   \<and> font_height (snd (free_fonts utf8 pango_fonts)) 0 = Inr 2
   \<and> font_ascent (snd (free_fonts utf8 pango_fonts)) f = Inr 1
   \<and> font_descent (snd (free_fonts utf8 pango_fonts)) f = Inr 1"
  by (simp add: font_height_def font_ascent_def font_descent_def free_fonts_def)


section \<open>Colour names\<close>

text \<open>
  The hex digits of the specification are the characters that \<^verbatim>\<open>hex_nibble_value\<close> gives a
  value to, checked on all 256 characters.
\<close>

lemma hex_digit_iff_nibble: "\<forall>c. is_hex_digit c = (0 \<le> hex_nibble_value c)"
  by code_simp

text \<open>The digit loop stops with \<^verbatim>\<open>goto err\<close> at the first pair with a character of no value.\<close>

lemma parse_hex_pairs_rejects:
  "i \<le> j \<Longrightarrow> j < len \<Longrightarrow> even len \<Longrightarrow> even i \<Longrightarrow> hex_nibble_value (name ! j) < 0 \<Longrightarrow>
     parse_hex_pairs name len i argb = None"
proof (induction name len i argb rule: parse_hex_pairs.induct)
  case (1 name len i argb)
  have lt: "i + 1 < len"
    using "1.prems"(1-4) by presburger
  let ?argb = "argb[3 - i div 2 :=
                 word_of_int (push_bit 4 (hex_nibble_value (name ! i)) + hex_nibble_value (name ! (i + 1)))]"
  show ?case
  proof (cases "hex_nibble_value (name ! i) < 0 \<or> hex_nibble_value (name ! (i + 1)) < 0")
    case True
    then show ?thesis
      using lt by (subst parse_hex_pairs.simps) (simp add: Let_def)
  next
    case False
    then have "j \<noteq> i" and "j \<noteq> i + 1"
      using "1.prems"(5) by auto
    then have "i + 2 \<le> j"
      using "1.prems"(1) by simp
    then have "parse_hex_pairs name len (i + 2) ?argb = None"
      using "1.IH" [OF lt refl refl _ refl] False "1.prems"(2-5) by simp
    then show ?thesis
      using lt False by (subst parse_hex_pairs.simps) (simp add: Let_def)
  qed
qed

text \<open>
  Over at most six digits that all have a value the loop ends normally and never writes
  \<^verbatim>\<open>argb[0]\<close>.
\<close>

lemma parse_hex_pairs_accepts_six:
  "\<forall>j. i \<le> j \<and> j < len \<longrightarrow> 0 \<le> hex_nibble_value (name ! j) \<Longrightarrow> length argb = 4 \<Longrightarrow> len \<le> 6 \<Longrightarrow>
     \<exists>r. parse_hex_pairs name len i argb = Some r \<and> length r = 4 \<and> r ! 0 = argb ! 0"
proof (induction name len i argb rule: parse_hex_pairs.induct)
  case (1 name len i argb)
  let ?argb = "argb[3 - i div 2 :=
                 word_of_int (push_bit 4 (hex_nibble_value (name ! i)) + hex_nibble_value (name ! (i + 1)))]"
  show ?case
  proof (cases "i + 1 < len")
    case True
    have ok: "\<not> (hex_nibble_value (name ! i) < 0 \<or> hex_nibble_value (name ! (i + 1)) < 0)"
      using "1.prems"(1) True by (simp add: not_less)
    have "\<exists>r. parse_hex_pairs name len (i + 2) ?argb = Some r \<and> length r = 4 \<and> r ! 0 = ?argb ! 0"
      using "1.IH" [OF True refl refl ok refl] "1.prems" by simp
    moreover have "3 - i div 2 \<noteq> 0"
      using True "1.prems"(3) by presburger
    then have "?argb ! 0 = argb ! 0"
      by simp
    ultimately show ?thesis
      using True ok by (subst parse_hex_pairs.simps) (simp add: Let_def)
  next
    case False
    then show ?thesis
      using "1.prems" by (subst parse_hex_pairs.simps) simp
  qed
qed

lemma long_of_argb_low_byte: "long_of_argb argb hi AND 0xff = ucast (argb ! 0)"
proof -
  have m: "(0xff :: 64 word) = mask 8"
    by (simp add: mask_eq_exp_minus_1)
  show ?thesis
    unfolding m long_of_argb_def
    by (rule bit_word_eqI) (auto simp add: bit_simps dest: bit_imp_le_length)
qed

lemma long_of_argb_low_half:
  "(ucast (long_of_argb argb hi) :: 32 word) = ucast (long_of_argb argb hi')"
  by (rule bit_word_eqI) (auto simp add: long_of_argb_def bit_simps)

text \<open>\<^verbatim>\<open>get_x11_color\<close> on a name that the colour database does not resolve.\<close>

lemma get_x11_color_unnamed:
  assumes "OsLookupColor name = None"
  shows "get_x11_color OsLookupColor hi name =
       (if length (strip_marker name) = 6 \<or> length (strip_marker name) = 8 then
          (case parse_hex_pairs (strip_marker name) (length (strip_marker name)) 0 [0xff, 0, 0, 0] of
             Some argb \<Rightarrow> (None, long_of_argb argb hi)
           | None \<Rightarrow> (Some (CantParseXColor (strip_marker name) (length (strip_marker name))), 0xFF00FF))
        else (Some (CantParseXColor (strip_marker name) (length (strip_marker name))), 0xFF00FF))"
proof -
  have strip: "(case name of
                   c # cs \<Rightarrow> if c = CHR ''#'' then (cs, length name - 1) else (name, length name)
                 | [] \<Rightarrow> (name, length name)) = (strip_marker name, length (strip_marker name))"
    by (simp add: strip_marker_def split: list.split)
  show ?thesis
    by (simp add: get_x11_color_def strip assms)
qed

text \<open>
  \<open>ff00ff\<close> and \<open>#ff00ff\<close>, when the colour database resolves neither: both leave the digit
  loop with \<^verbatim>\<open>argb = {0xff, 0xff, 0x00, 0xff}\<close>, and the returned \<^verbatim>\<open>long\<close> is these four
  bytes below the four bytes of \<^verbatim>\<open>out\<close> that the source never writes.
\<close>

lemma get_x11_color_ff00ff:
  assumes "OsLookupColor ''ff00ff'' = None" and "OsLookupColor ''#ff00ff'' = None"
  shows "get_x11_color OsLookupColor hi ''ff00ff'' = (None, long_of_argb [0xff, 0xff, 0, 0xff] hi)"
    and "get_x11_color OsLookupColor hi ''#ff00ff'' = (None, long_of_argb [0xff, 0xff, 0, 0xff] hi)"
proof -
  have s: "strip_marker ''#ff00ff'' = ''ff00ff''" "strip_marker ''ff00ff'' = ''ff00ff''"
    by (simp_all add: strip_marker_def)
  have l: "length ''ff00ff'' = 6"
    by simp
  have p: "parse_hex_pairs ''ff00ff'' 6 0 [0xff, 0, 0, 0] = Some [0xff, 0xff, 0, 0xff]"
    by (simp add: parse_hex_pairs.simps hex_nibble_value_def)
  show "get_x11_color OsLookupColor hi ''ff00ff'' = (None, long_of_argb [0xff, 0xff, 0, 0xff] hi)"
    unfolding get_x11_color_unnamed [of OsLookupColor "''ff00ff''", OF assms(1)] s l p by simp
  show "get_x11_color OsLookupColor hi ''#ff00ff'' = (None, long_of_argb [0xff, 0xff, 0, 0xff] hi)"
    unfolding get_x11_color_unnamed [of OsLookupColor "''#ff00ff''", OF assms(2)] s l p by simp
qed

text \<open>
  The four channel bytes, the low half of the returned value, are the same for both names,
  whatever the unwritten bytes hold at each call.
\<close>

lemma get_x11_color_marker_channels:
  assumes "OsLookupColor ''ff00ff'' = None" and "OsLookupColor ''#ff00ff'' = None"
  shows "(ucast (snd (get_x11_color OsLookupColor hi ''#ff00ff'')) :: 32 word)
           = ucast (snd (get_x11_color OsLookupColor hi' ''ff00ff''))"
  using long_of_argb_low_half [of _ hi hi'] by (simp add: get_x11_color_ff00ff [OF assms])

lemma long_of_argb_magenta:
  "long_of_argb [0xff, 0xff, 0, 0xff] 0xABABABAB = 0xABABABABFF00FFFF"
  "long_of_argb [0xff, 0xff, 0, 0xff] 0xCDCDCDCD = 0xCDCDCDCDFF00FFFF"
  by (simp_all add: long_of_argb_def)

text \<open>
  Claim C5: \<open>ff00ff\<close> and \<open>#ff00ff\<close>, neither of them a named colour, are to yield the same
  colour value. \<^verbatim>\<open>long out; memcpy(&out, argb, 4); return out;\<close> sets four of the eight bytes
  of the result: when the other four hold \<open>0xABABABAB\<close> at the first call and \<open>0xCDCDCDCD\<close> at
  the second, the two returned values are \<open>0xABABABABFF00FFFF\<close> and \<open>0xCDCDCDCDFF00FFFF\<close>.
\<close>

theorem get_x11_color_marker_upper_bytes:
  "get_x11_color no_named_colours 0xABABABAB ''ff00ff'' = (None, 0xABABABABFF00FFFF)
   \<and> get_x11_color no_named_colours 0xCDCDCDCD ''#ff00ff'' = (None, 0xCDCDCDCDFF00FFFF)
   \<and> snd (get_x11_color no_named_colours 0xABABABAB ''ff00ff'')
         \<noteq> snd (get_x11_color no_named_colours 0xCDCDCDCD ''#ff00ff'')"
proof -
  have h1: "no_named_colours ''ff00ff'' = None" and h2: "no_named_colours ''#ff00ff'' = None"
    by (simp_all add: no_named_colours_def)
  show ?thesis
    by (simp add: get_x11_color_ff00ff [OF h1 h2] long_of_argb_magenta)
qed

text \<open>
  Claim C6: for every name that the colour database does not resolve and that is not a valid
  hex string (six or eight hex digits after an optional marker), \<^verbatim>\<open>get_x11_color\<close> writes
  the warning and returns \<open>0xFF00FF\<close>; there is no other outcome, no failure is passed on.
\<close>

theorem get_x11_color_fallback:
  assumes "OsLookupColor name = None" and "\<not> valid_hex_colour name"
  shows "get_x11_color OsLookupColor hi name
           = (Some (CantParseXColor (strip_marker name) (length (strip_marker name))), 0xFF00FF)"
proof (cases "length (strip_marker name) = 6 \<or> length (strip_marker name) = 8")
  case False
  then show ?thesis
    using assms(1) by (simp add: get_x11_color_unnamed)
next
  case True
  let ?s = "strip_marker name"
  from True have "\<not> list_all is_hex_digit ?s"
    using assms(2) by (simp add: valid_hex_colour_def)
  then obtain j where j: "j < length ?s" "\<not> is_hex_digit (?s ! j)"
    by (auto simp add: list_all_length)
  then have "hex_nibble_value (?s ! j) < 0"
    using hex_digit_iff_nibble by (simp add: not_le)
  moreover have "even (length ?s)"
    using True by auto
  ultimately have "parse_hex_pairs ?s (length ?s) 0 [0xff, 0, 0, 0] = None"
    using j(1) by (intro parse_hex_pairs_rejects [of 0 j]) simp_all
  then show ?thesis
    using assms(1) True by (simp add: get_x11_color_unnamed)
qed

theorem get_x11_color_fallback_witness:
  "no_named_colours ''zz'' = None \<and> \<not> valid_hex_colour ''zz''
   \<and> get_x11_color no_named_colours 0 ''zz'' = (Some (CantParseXColor ''zz'' 2), 0xFF00FF)"
proof -
  have h1: "no_named_colours ''zz'' = None"
    by (simp add: no_named_colours_def)
  have h2: "\<not> valid_hex_colour ''zz''"
    by (simp add: valid_hex_colour_def strip_marker_def)
  have "strip_marker ''zz'' = ''zz''"
    by (simp add: strip_marker_def)
  then show ?thesis
    using h1 h2
      get_x11_color_fallback [where OsLookupColor = no_named_colours and name = "''zz''" and hi = 0, OF h1 h2]
    by simp
qed

text \<open>
  Claim C10: for every name that the colour database does not resolve and that is six hex
  digits after an optional marker, \<^verbatim>\<open>get_x11_color\<close> writes no warning and the alpha byte
  of the result, \<^verbatim>\<open>argb[0]\<close>, which is the lowest byte of the returned value, is \<open>0xFF\<close>.
\<close>

theorem get_x11_color_six_digits_opaque:
  assumes "OsLookupColor name = None" and "length (strip_marker name) = 6"
    and "list_all is_hex_digit (strip_marker name)"
  shows "fst (get_x11_color OsLookupColor hi name) = None
       \<and> snd (get_x11_color OsLookupColor hi name) AND 0xff = 0xff"
proof -
  let ?s = "strip_marker name"
  have "\<forall>j. 0 \<le> j \<and> j < 6 \<longrightarrow> 0 \<le> hex_nibble_value (?s ! j)"
    using assms(2,3) hex_digit_iff_nibble by (simp add: list_all_length)
  then obtain r where r: "parse_hex_pairs ?s 6 0 [0xff, 0, 0, 0] = Some r" "r ! 0 = 0xff"
    using parse_hex_pairs_accepts_six [of 0 6 ?s "[0xff, 0, 0, 0]"] by auto
  show ?thesis
    using assms(1,2) r by (simp add: get_x11_color_unnamed long_of_argb_low_byte)
qed

theorem get_x11_color_six_digits_opaque_witness:
  "no_named_colours ''#00aaFF'' = None \<and> length (strip_marker ''#00aaFF'') = 6
   \<and> list_all is_hex_digit (strip_marker ''#00aaFF'')
   \<and> fst (get_x11_color no_named_colours 0 ''#00aaFF'') = None
   \<and> snd (get_x11_color no_named_colours 0 ''#00aaFF'') AND 0xff = 0xff"
proof -
  have h1: "no_named_colours ''#00aaFF'' = None"
    by (simp add: no_named_colours_def)
  have h2: "length (strip_marker ''#00aaFF'') = 6"
    by (simp add: strip_marker_def)
  have h3: "list_all is_hex_digit (strip_marker ''#00aaFF'')"
    by (simp add: strip_marker_def is_hex_digit_def)
  show ?thesis
    using h1 h2 h3
      get_x11_color_six_digits_opaque
        [where OsLookupColor = no_named_colours and name = "''#00aaFF''" and hi = 0, OF h1 h2 h3]
    by blast
qed


section \<open>Shared-memory pool\<close>

text \<open>
  \<^verbatim>\<open>*offset\<close> is an \<^verbatim>\<open>int\<close>: it holds the old \<^verbatim>\<open>used\<close> exactly as long as that is below
  \<open>2 ^ 31\<close>.
\<close>

lemma offset_is_used:
  assumes "unat (u :: 64 word) < 2 ^ 31"
  shows "sint (ucast u :: 32 word) = uint u"
proof -
  have "uint u = int (unat u)"
    by simp
  also have "\<dots> < int (2 ^ 31)"
    using assms by (simp only: of_nat_less_iff)
  finally have u: "uint u < 2 ^ 31"
    by simp
  have "uint (ucast u :: 32 word) = take_bit 32 (uint u)"
    by (simp add: unsigned_ucast_eq)
  also have "\<dots> = uint u"
    using u by (simp add: take_bit_eq_mod)
  finally have e: "uint (ucast u :: 32 word) = uint u" .
  have "sint (ucast u :: 32 word) = signed_take_bit 31 (uint (ucast u :: 32 word))"
    by (simp add: sint_uint)
  also have "\<dots> = uint u"
    unfolding e using u by (simp add: signed_take_bit_eq_take_bit_shift take_bit_eq_mod)
  finally show ?thesis .
qed

text \<open>
  The program calls \<^verbatim>\<open>shm_pool_allocate\<close> once, in \<^verbatim>\<open>create_shm_surface_from_pool\<close>, on the
  pool that \<^verbatim>\<open>window_allocate_buffer\<close> has just got from \<^verbatim>\<open>shm_pool_create\<close>, where
  \<^verbatim>\<open>used\<close> is 0. On such a pool every request larger than the pool fails and leaves the pool
  as it is, and every other request is granted at offset 0.
\<close>

lemma shm_pool_allocate_fresh:
  assumes "used p = 0"
  shows "shm_pool_allocate p sz =
           (if size' p < sz then (p, None) else (p\<lparr>used := sz\<rparr>, Some (data p, 0)))"
  using assms by (simp add: shm_pool_allocate_def)




end
